theory Spec2Isabelle
  imports Complex_Main
begin

section \<open>Values of the bot\<close>

text \<open>
  The program is \<^verbatim>\<open>src/bot.py\<close>: a Telegram bot that asks for a name, a voucher type
  and an amount, and appends one row per finished conversation to a Google sheet.

  Texts are ASCII strings. A Python \<^verbatim>\<open>float\<close> is modelled by the number its decimal
  literal denotes (\<open>Finite\<close>), an infinity with its sign, or \<open>NaN\<close>. CPython stores the
  double nearest to that number; the rounding keeps the sign and is exact for the
  values used below (25.5, 50, 1000, -5).
\<close>

datatype pyfloat = Finite rat | Infinity bool | NaN

datatype pyval = Str string | Float pyfloat

datatype error = ValueError | KeyError string

section \<open>Python's \<^verbatim>\<open>float(str)\<close>\<close>

text \<open>
  \<^verbatim>\<open>float(update.message.text)\<close> (line 121) is Python's built-in conversion. Its
  grammar, from the language reference:
  \<^verbatim>\<open>
  sign        ::= "+" | "-"
  infinity    ::= "Infinity" | "inf"
  nan         ::= "nan"
  digitpart   ::= digit (["_"] digit)*
  number      ::= [digitpart] "." digitpart | digitpart ["."]
  exponent    ::= ("e" | "E") [sign] digitpart
  floatnumber ::= number [exponent]
  floatvalue  ::= [sign] (floatnumber | infinity | nan)
  \<close>
  Case is not significant for \<^verbatim>\<open>inf\<close>, \<^verbatim>\<open>infinity\<close> and \<^verbatim>\<open>nan\<close>, and leading and
  trailing whitespace (for an ASCII text: tab, line feed, vertical tab, form feed,
  carriage return and space) is removed. Anything else raises \<^verbatim>\<open>ValueError\<close>.

  The functions below strip the text, check and drop the underscores, read the sign,
  then either a special name or digits, point, digits and exponent, and require that
  nothing is left. (CPython checks the underscores before it strips; the accepted
  texts are the same, since an underscore next to whitespace is refused either way.)
\<close>

definition is_space :: "char \<Rightarrow> bool" where
  "is_space c = (let n = (of_char c :: nat) in (9 \<le> n \<and> n \<le> 13) \<or> n = 32)"

definition is_digit :: "char \<Rightarrow> bool" where
  "is_digit c = (let n = (of_char c :: nat) in 48 \<le> n \<and> n \<le> 57)"

definition digit_val :: "char \<Rightarrow> nat" where
  "digit_val c = (of_char c :: nat) - 48"

definition to_lower :: "char \<Rightarrow> char" where
  "to_lower c = (let n = (of_char c :: nat) in if 65 \<le> n \<and> n \<le> 90 then char_of (n + 32) else c)"

definition strip :: "string \<Rightarrow> string" where
  "strip s = rev (dropWhile is_space (rev (dropWhile is_space s)))"

text \<open>An underscore must stand between two digits; \<open>prev\<close> is the character before.\<close>

fun underscores_ok :: "char \<Rightarrow> string \<Rightarrow> bool" where
  "underscores_ok prev [] = (prev \<noteq> CHR ''_'')"
| "underscores_ok prev (c # cs) =
     (if c = CHR ''_'' then is_digit prev \<and> underscores_ok c cs
      else if prev = CHR ''_'' then is_digit c \<and> underscores_ok c cs
      else underscores_ok c cs)"

text \<open>The value of a run of digits, most significant first.\<close>

definition digits_val :: "string \<Rightarrow> nat" where
  "digits_val ds = foldl (\<lambda>acc c. 10 * acc + digit_val c) 0 ds"

text \<open>An optional sign: whether it is a minus, and the rest.\<close>

fun read_sign :: "string \<Rightarrow> bool \<times> string" where
  "read_sign [] = (False, [])"
| "read_sign (c # cs) =
     (if c = CHR ''-'' then (True, cs)
      else if c = CHR ''+'' then (False, cs)
      else (False, c # cs))"

text \<open>
  The exponent part: nothing, or \<^verbatim>\<open>e\<close>/\<^verbatim>\<open>E\<close>, an optional sign and at least one digit,
  up to the end of the text.
\<close>

definition read_exponent :: "string \<Rightarrow> int option" where
  "read_exponent s =
     (case s of
        [] \<Rightarrow> Some 0
      | c # cs \<Rightarrow>
          if c = CHR ''e'' \<or> c = CHR ''E'' then
            (case read_sign cs of
               (neg, ds) \<Rightarrow>
                 if ds \<noteq> [] \<and> list_all is_digit ds
                 then Some (if neg then - int (digits_val ds) else int (digits_val ds))
                 else None)
          else None)"

text \<open>\<open>m * 10 ^ e\<close> as a rational number.\<close>

definition scale10 :: "nat \<Rightarrow> int \<Rightarrow> rat" where
  "scale10 m e = (if 0 \<le> e then of_nat m * 10 ^ nat e else of_nat m / 10 ^ nat (- e))"

text \<open>An unsigned \<^verbatim>\<open>floatnumber\<close>: its value, or \<open>None\<close> when the text is not one.\<close>

definition read_number :: "string \<Rightarrow> rat option" where
  "read_number s =
     (let ip = takeWhile is_digit s;
          r1 = dropWhile is_digit s;
          has_point = (r1 \<noteq> [] \<and> hd r1 = CHR ''.'');
          fp = (if has_point then takeWhile is_digit (tl r1) else []);
          r2 = (if has_point then dropWhile is_digit (tl r1) else r1)
      in if ip = [] \<and> fp = [] then None
         else (case read_exponent r2 of
                 None \<Rightarrow> None
               | Some e \<Rightarrow> Some (scale10 (digits_val (ip @ fp)) (e - int (length fp)))))"

definition py_float :: "string \<Rightarrow> error + pyfloat" where
  "py_float s =
     (let t = strip s in
      if \<not> underscores_ok (CHR 0x00) t then Inl ValueError
      else
        (case read_sign (filter (\<lambda>c. c \<noteq> CHR ''_'') t) of
           (neg, r) \<Rightarrow>
             if map to_lower r = ''inf'' \<or> map to_lower r = ''infinity'' then Inr (Infinity neg)
             else if map to_lower r = ''nan'' then Inr NaN
             else (case read_number r of
                     None \<Rightarrow> Inl ValueError
                   | Some v \<Rightarrow> Inr (Finite (if neg then - v else v)))))"

section \<open>The timestamp\<close>

text \<open>
  \<^verbatim>\<open>datetime.now().strftime("%Y-%m-%d %H:%M:%S")\<close> (line 125). The clock is an input
  of the model. A Python \<^verbatim>\<open>datetime\<close> always has its fields in range
  (\<open>valid_datetime\<close>); the year of \<^verbatim>\<open>datetime.now()\<close> has four digits.
\<close>

record datetime =
  year :: nat
  month :: nat
  day :: nat
  hour :: nat
  minute :: nat
  second :: nat

definition valid_datetime :: "datetime \<Rightarrow> bool" where
  "valid_datetime d =
     (1000 \<le> year d \<and> year d \<le> 9999 \<and> 1 \<le> month d \<and> month d \<le> 12 \<and>
      1 \<le> day d \<and> day d \<le> 31 \<and> hour d < 24 \<and> minute d < 60 \<and> second d < 60)"

definition digit_char :: "nat \<Rightarrow> char" where
  "digit_char n = char_of (48 + n mod 10)"

definition pad2 :: "nat \<Rightarrow> string" where
  "pad2 n = [digit_char (n div 10), digit_char n]"

definition pad4 :: "nat \<Rightarrow> string" where
  "pad4 n = [digit_char (n div 1000), digit_char (n div 100), digit_char (n div 10), digit_char n]"

definition strftime :: "datetime \<Rightarrow> string" where
  "strftime d =
     pad4 (year d) @ ''-'' @ pad2 (month d) @ ''-'' @ pad2 (day d) @ '' '' @
     pad2 (hour d) @ '':'' @ pad2 (minute d) @ '':'' @ pad2 (second d)"

text \<open>The shape \<^verbatim>\<open>YYYY-MM-DD HH:MM:SS\<close>: 19 characters, digits and separators in place.\<close>

definition is_timestamp :: "string \<Rightarrow> bool" where
  "is_timestamp s =
     (length s = 19 \<and>
      list_all (\<lambda>i. is_digit (s ! i)) [0, 1, 2, 3, 5, 6, 8, 9, 11, 12, 14, 15, 17, 18] \<and>
      s ! 4 = CHR ''-'' \<and> s ! 7 = CHR ''-'' \<and> s ! 10 = CHR '' '' \<and>
      s ! 13 = CHR '':'' \<and> s ! 16 = CHR '':'')"

section \<open>The spreadsheet\<close>

text \<open>
  The worksheet is an external service reached through \<^verbatim>\<open>gspread\<close>. It is modelled
  by its rows, top to bottom, each a list of cells; the empty string is a blank cell.
  \<^verbatim>\<open>row_values(n)\<close> returns row \<open>n\<close> (counted from 1) without its trailing blank cells,
  and \<^verbatim>\<open>[]\<close> for a row that is blank or absent. \<^verbatim>\<open>append_row\<close> writes the new row
  below the last row that holds data.
\<close>

type_synonym row = "pyval list"
type_synonym worksheet = "row list"

definition blank_cell :: "pyval \<Rightarrow> bool" where
  "blank_cell c = (c = Str [])"

definition blank_row :: "row \<Rightarrow> bool" where
  "blank_row r = list_all blank_cell r"

definition row_values :: "worksheet \<Rightarrow> nat \<Rightarrow> row" where
  "row_values sh n =
     (if 1 \<le> n \<and> n \<le> length sh then rev (dropWhile blank_cell (rev (sh ! (n - 1)))) else [])"

definition append_row :: "worksheet \<Rightarrow> row \<Rightarrow> worksheet" where
  "append_row sh r = rev (dropWhile blank_row (rev sh)) @ [r]"

definition header_row :: row where
  "header_row = [Str ''Tanggal'', Str ''Nama'', Str ''Jenis Voucher'', Str ''Jumlah (Dollar)'']"

text \<open>Lines 59-60: the header is appended when the first row is empty.\<close>

definition ensure_header :: "worksheet \<Rightarrow> worksheet" where
  "ensure_header sh = (if row_values sh 1 = [] then append_row sh header_row else sh)"

section \<open>Messages\<close>

text \<open>
  An incoming update is a command (\<^verbatim>\<open>/name\<close>), a text that is not a command, or
  anything else. Each comes with the time at which it is handled and with what the
  sheet will answer to an append while it is handled: \<open>None\<close> for success, or the
  text of the exception raised.
\<close>

datatype event = Command string | Text string | Other

record update =
  msg :: event
  now :: datetime
  append_exc :: "string option"

definition message_text :: "update \<Rightarrow> string" where
  "message_text u = (case msg u of Command c \<Rightarrow> CHR ''/'' # c | Text t \<Rightarrow> t | Other \<Rightarrow> [])"

text \<open>The replies of the bot, one constructor for each \<^verbatim>\<open>reply_text\<close> call of the source.\<close>

datatype reply =
    Welcome
  | AskVoucherType string
  | AskAmount
  | Saved string pyval pyval pyfloat
  | SaveFailed
  | NotConfigured
  | InvalidAmount
  | Cancelled
  | Help

datatype markup = ReplyKeyboardMarkup "string list list" | ReplyKeyboardRemove

definition voucher_types :: "string list list" where
  "voucher_types =
     [[''Amazon'', ''eBay'', ''Target''],
      [''Walmart'', ''Best Buy''],
      [''Nike'', ''Adidas'', ''H&M''],
      [''Sephora'', ''Ulta Beauty''],
      [''Spotify'', ''Netflix'', ''Xbox''],
      [''PlayStation'', ''Steam''],
      [''Starbucks'', ''Domino'' @ [CHR 0x27] @ ''s'', ''Uber Eats''],
      [''Other'']]"

definition markup_of :: "reply \<Rightarrow> markup option" where
  "markup_of r =
     (case r of
        AskVoucherType n \<Rightarrow> Some (ReplyKeyboardMarkup voucher_types)
      | AskAmount \<Rightarrow> Some ReplyKeyboardRemove
      | Cancelled \<Rightarrow> Some ReplyKeyboardRemove
      | _ \<Rightarrow> None)"

text \<open>
  The text of each reply. Characters outside ASCII are written as their UTF-8 bytes.
  How an f-string prints a float is Python's own and is the parameter \<open>fmt\<close>.
\<close>

definition nl :: string where "nl = [CHR 0x0A]"
definition emoji_house :: string where "emoji_house = [CHR 0xF0, CHR 0x9F, CHR 0x8F, CHR 0xA1]"
definition emoji_check :: string where "emoji_check = [CHR 0xE2, CHR 0x9C, CHR 0x85]"
definition emoji_calendar :: string where "emoji_calendar = [CHR 0xF0, CHR 0x9F, CHR 0x93, CHR 0x85]"
definition emoji_person :: string where "emoji_person = [CHR 0xF0, CHR 0x9F, CHR 0x91, CHR 0xA4]"
definition emoji_ticket :: string where "emoji_ticket = [CHR 0xF0, CHR 0x9F, CHR 0x8E, CHR 0xAB]"
definition emoji_dollar :: string where "emoji_dollar = [CHR 0xF0, CHR 0x9F, CHR 0x92, CHR 0xB5]"
definition emoji_cross :: string where "emoji_cross = [CHR 0xE2, CHR 0x9D, CHR 0x8C]"
definition emoji_book :: string where "emoji_book = [CHR 0xF0, CHR 0x9F, CHR 0x93, CHR 0x96]"
definition bullet :: string where "bullet = [CHR 0xE2, CHR 0x80, CHR 0xA2]"

definition py_str :: "(pyfloat \<Rightarrow> string) \<Rightarrow> pyval \<Rightarrow> string" where
  "py_str fmt v = (case v of Str s \<Rightarrow> s | Float a \<Rightarrow> fmt a)"

definition text_of :: "(pyfloat \<Rightarrow> string) \<Rightarrow> reply \<Rightarrow> string" where
  "text_of fmt r =
     (case r of
        Welcome \<Rightarrow>
          ''Selamat datang di Bot Farm House! '' @ emoji_house @ nl @ nl @
          ''Saya akan membantu Anda mencatat data voucher.'' @ nl @ nl @
          ''Silakan masukkan nama Anda:''
      | AskVoucherType n \<Rightarrow>
          ''Terima kasih, '' @ n @ ''!'' @ nl @ nl @
          ''Pilih atau ketik jenis voucher:''
      | AskAmount \<Rightarrow>
          ''Berapa jumlah voucher dalam dollar? (contoh: 50)'' @ nl @
          ''Masukkan hanya angka:''
      | Saved current_date name voucher_type amount \<Rightarrow>
          emoji_check @ '' Data berhasil disimpan!'' @ nl @ nl @
          emoji_calendar @ '' Tanggal: '' @ current_date @ nl @
          emoji_person @ '' Nama: '' @ py_str fmt name @ nl @
          emoji_ticket @ '' Jenis Voucher: '' @ py_str fmt voucher_type @ nl @
          emoji_dollar @ '' Jumlah: $'' @ fmt amount @ nl @ nl @
          ''Ketik /start untuk menambah data baru atau /cancel untuk berhenti.''
      | SaveFailed \<Rightarrow>
          emoji_cross @ '' Maaf, terjadi kesalahan saat menyimpan ke spreadsheet.'' @ nl @
          ''Silakan coba lagi atau hubungi admin.''
      | NotConfigured \<Rightarrow>
          emoji_cross @ '' Koneksi ke Google Sheets belum tersedia.'' @ nl @
          ''Silakan periksa konfigurasi.''
      | InvalidAmount \<Rightarrow>
          emoji_cross @ '' Input tidak valid. Mohon masukkan angka saja.'' @ nl @
          ''Contoh: 50 atau 25.5''
      | Cancelled \<Rightarrow>
          ''Operasi dibatalkan. Ketik /start untuk memulai lagi.''
      | Help \<Rightarrow>
          emoji_book @ '' Bantuan Bot Farm House'' @ nl @ nl @
          ''Perintah yang tersedia:'' @ nl @
          ''/start - Mulai menambahkan data voucher'' @ nl @
          ''/cancel - Batalkan operasi saat ini'' @ nl @
          ''/help - Tampilkan pesan bantuan ini'' @ nl @ nl @
          ''Bot ini akan mencatat:'' @ nl @
          bullet @ '' Tanggal (otomatis)'' @ nl @
          bullet @ '' Nama'' @ nl @
          bullet @ '' Jenis Voucher'' @ nl @
          bullet @ '' Jumlah dalam Dollar'')"

section \<open>The state of the bot\<close>

text \<open>
  \<^verbatim>\<open>NAME, VOUCHER_TYPE, VOUCHER_AMOUNT = range(3)\<close> (line 27) and
  \<^verbatim>\<open>ConversationHandler.END\<close>. The library keeps the state that a handler returns;
  after \<open>END\<close> the conversation is forgotten, which is also the state before the first
  \<^verbatim>\<open>/start\<close>. So \<open>END\<close> stands for "no conversation is active".

  One user in one chat is modelled: \<open>conv\<close> is the state of that conversation,
  \<open>user_data\<close> is \<^verbatim>\<open>context.user_data\<close>, and \<open>sheet\<close> is the global \<^verbatim>\<open>sheet\<close>
  (\<open>None\<close> when connecting failed). Three fields record what the bot did: the replies
  it sent, the rows it passed to \<^verbatim>\<open>sheet.append_row\<close> in a handler (whether or not the
  call succeeded), and the lines it logged.
\<close>

datatype conv_state = NAME | VOUCHER_TYPE | VOUCHER_AMOUNT | END

record bot =
  conv :: conv_state
  user_data :: "string \<rightharpoonup> pyval"
  sheet :: "worksheet option"
  outbox :: "reply list"
  append_calls :: "row list"
  logged :: "string list"

definition reply_text :: "reply \<Rightarrow> bot \<Rightarrow> bot" where
  "reply_text r s = s\<lparr>outbox := outbox s @ [r]\<rparr>"

section \<open>Start-up (lines 56-68)\<close>

text \<open>
  \<open>opened\<close> is what \<^verbatim>\<open>setup_google_sheets()\<close> gives: the worksheet, or the exception it
  raised. \<open>header_exc\<close> is the exception, if any, that the sheet raises while the header
  is checked and written. Every failure leaves \<^verbatim>\<open>sheet = None\<close>.
\<close>

datatype setup_error = FileNotFoundError | OtherException string

definition setup_failed :: "string list \<Rightarrow> bot" where
  "setup_failed lines =
     \<lparr>conv = END, user_data = Map.empty, sheet = None, outbox = [], append_calls = [],
      logged = lines\<rparr>"

definition startup :: "setup_error + worksheet \<Rightarrow> string option \<Rightarrow> bot" where
  "startup opened header_exc =
     (case opened of
        Inl FileNotFoundError \<Rightarrow>
          setup_failed
            [''credentials.json not found. Please set GOOGLE_APPLICATION_CREDENTIALS_JSON '' @
             ''environment variable.'']
      | Inl (OtherException e) \<Rightarrow>
          setup_failed
            [''Error setting up Google Sheets: '' @ e,
             ''Bot will continue, but data won't be saved to sheets.'']
      | Inr sh \<Rightarrow>
          (case header_exc of
             Some e \<Rightarrow>
               setup_failed
                 [''Error setting up Google Sheets: '' @ e,
                  ''Bot will continue, but data won't be saved to sheets.'']
           | None \<Rightarrow>
               \<lparr>conv = END, user_data = Map.empty, sheet = Some (ensure_header sh), outbox = [],
                append_calls = [], logged = [''Google Sheets connected successfully!'']\<rparr>))"

section \<open>The handlers\<close>

text \<open>
  A handler takes the update and the state, and gives the state it leaves together
  with either the conversation state it returns or the exception it raises.
\<close>

type_synonym handler = "update \<Rightarrow> bot \<Rightarrow> (error + conv_state) \<times> bot"

text \<open>Lines 71-78.\<close>

definition start :: handler where
  "start u s = (Inr NAME, reply_text Welcome s)"

text \<open>Lines 81-103.\<close>

definition get_name :: handler where
  "get_name u s =
     (let s1 = s\<lparr>user_data := (user_data s)(''name'' \<mapsto> Str (message_text u))\<rparr>
      in (Inr VOUCHER_TYPE, reply_text (AskVoucherType (message_text u)) s1))"

text \<open>Lines 106-115.\<close>

definition get_voucher_type :: handler where
  "get_voucher_type u s =
     (let s1 = s\<lparr>user_data := (user_data s)(''voucher_type'' \<mapsto> Str (message_text u))\<rparr>
      in (Inr VOUCHER_AMOUNT, reply_text AskAmount s1))"

text \<open>
  Lines 118-164. \<^verbatim>\<open>except ValueError\<close> catches the failure of \<^verbatim>\<open>float\<close>; a missing key
  of \<^verbatim>\<open>user_data\<close> is a \<^verbatim>\<open>KeyError\<close>, which nothing catches, raised after the amount
  was stored. The inner \<^verbatim>\<open>except Exception\<close> catches the failure of the append.
\<close>

definition get_voucher_amount :: handler where
  "get_voucher_amount u s =
     (case py_float (message_text u) of
        Inl e \<Rightarrow>
          (case e of
             ValueError \<Rightarrow> (Inr VOUCHER_AMOUNT, reply_text InvalidAmount s)
           | KeyError k \<Rightarrow> (Inl e, s))
      | Inr amount \<Rightarrow>
          (let s1 = s\<lparr>user_data := (user_data s)(''amount'' \<mapsto> Float amount)\<rparr>;
               current_date = strftime (now u)
           in case user_data s1 ''name'' of
                None \<Rightarrow> (Inl (KeyError ''name''), s1)
              | Some name \<Rightarrow>
                  (case user_data s1 ''voucher_type'' of
                     None \<Rightarrow> (Inl (KeyError ''voucher_type''), s1)
                   | Some voucher_type \<Rightarrow>
                       (let new_row = [Str current_date, name, voucher_type, Float amount];
                            s2 =
                              (case sheet s1 of
                                 Some sh \<Rightarrow>
                                   (case append_exc u of
                                      None \<Rightarrow>
                                        reply_text (Saved current_date name voucher_type amount)
                                          (s1\<lparr>sheet := Some (append_row sh new_row),
                                              append_calls := append_calls s1 @ [new_row]\<rparr>)
                                    | Some e \<Rightarrow>
                                        reply_text SaveFailed
                                          (s1\<lparr>append_calls := append_calls s1 @ [new_row],
                                              logged := logged s1 @ [''Error saving to sheet: '' @ e]\<rparr>))
                               | None \<Rightarrow> reply_text NotConfigured s1)
                        in (Inr END, s2\<lparr>user_data := Map.empty\<rparr>)))))"

text \<open>Lines 167-174.\<close>

definition cancel :: handler where
  "cancel u s = (Inr END, (reply_text Cancelled s)\<lparr>user_data := Map.empty\<rparr>)"

text \<open>Lines 177-190. This handler is outside the conversation and returns nothing.\<close>

definition help_command :: "update \<Rightarrow> bot \<Rightarrow> bot" where
  "help_command u s = reply_text Help s"

section \<open>Dispatch (lines 206-217)\<close>

text \<open>
  \<^verbatim>\<open>ConversationHandler(entry_points, states, fallbacks)\<close> with the library's default
  \<^verbatim>\<open>allow_reentry=False\<close>: while no conversation is active only the entry points are
  tried; while one is active the handlers of its state are tried, then the
  fallbacks, and the entry points are not. \<^verbatim>\<open>filters.TEXT & ~filters.COMMAND\<close>
  accepts a text that is not a command.
\<close>

definition entry_points :: "event \<Rightarrow> handler option" where
  "entry_points ev =
     (case ev of Command c \<Rightarrow> if c = ''start'' then Some start else None | _ \<Rightarrow> None)"

definition states :: "conv_state \<Rightarrow> event \<Rightarrow> handler option" where
  "states st ev =
     (case ev of
        Text t \<Rightarrow>
          (case st of
             NAME \<Rightarrow> Some get_name
           | VOUCHER_TYPE \<Rightarrow> Some get_voucher_type
           | VOUCHER_AMOUNT \<Rightarrow> Some get_voucher_amount
           | END \<Rightarrow> None)
      | _ \<Rightarrow> None)"

definition fallbacks :: "event \<Rightarrow> handler option" where
  "fallbacks ev =
     (case ev of Command c \<Rightarrow> if c = ''cancel'' then Some cancel else None | _ \<Rightarrow> None)"

definition conv_handler :: "conv_state \<Rightarrow> event \<Rightarrow> handler option" where
  "conv_handler st ev =
     (if st = END then entry_points ev
      else (case states st ev of Some h \<Rightarrow> Some h | None \<Rightarrow> fallbacks ev))"

text \<open>
  The application tries the conversation handler first and the \<^verbatim>\<open>/help\<close> handler
  second; an update that neither accepts is dropped. A handler that raises leaves
  the conversation state as it was.
\<close>

definition process_update :: "update \<Rightarrow> bot \<Rightarrow> bot" where
  "process_update u s =
     (case conv_handler (conv s) (msg u) of
        Some h \<Rightarrow>
          (case h u s of
             (Inr st, s') \<Rightarrow> s'\<lparr>conv := st\<rparr>
           | (Inl e, s') \<Rightarrow> s')
      | None \<Rightarrow>
          (case msg u of
             Command c \<Rightarrow> if c = ''help'' then help_command u s else s
           | _ \<Rightarrow> s))"

text \<open>The updates of a session, handled one after the other.\<close>

fun run :: "update list \<Rightarrow> bot \<Rightarrow> bot" where
  "run [] s = s"
| "run (u # us) s = run us (process_update u s)"

section \<open>Properties\<close>

text \<open>
  What \<^verbatim>\<open>user_data\<close> holds between two updates, by conversation state: nothing while
  no conversation is active and while the name is awaited, the name alone while the
  voucher type is awaited, the name and the voucher type while the amount is awaited.
\<close>

definition scratch_ok :: "bot \<Rightarrow> bool" where
  "scratch_ok s =
     (case conv s of
        NAME \<Rightarrow> user_data s = Map.empty
      | VOUCHER_TYPE \<Rightarrow> (\<exists>n. user_data s = [''name'' \<mapsto> Str n])
      | VOUCHER_AMOUNT \<Rightarrow>
          (\<exists>n v. user_data s = [''name'' \<mapsto> Str n, ''voucher_type'' \<mapsto> Str v])
      | END \<Rightarrow> user_data s = Map.empty)"



text \<open>The six numbers that a timestamp text spells.\<close>

definition timestamp_fields :: "string \<Rightarrow> nat list" where
  "timestamp_fields s =
     [digits_val (take 4 s), digits_val (take 2 (drop 5 s)), digits_val (take 2 (drop 8 s)),
      digits_val (take 2 (drop 11 s)), digits_val (take 2 (drop 14 s)),
      digits_val (take 2 (drop 17 s))]"


section \<open>Sample inputs\<close>

text \<open>Concrete updates for the examples: all at one time, the append succeeding or failing.\<close>

definition sample_time :: datetime where
  "sample_time = \<lparr>year = 2024, month = 5, day = 17, hour = 9, minute = 31, second = 0\<rparr>"

definition sample_update :: "event \<Rightarrow> update" where
  "sample_update ev = \<lparr>msg = ev, now = sample_time, append_exc = None\<rparr>"

definition failing_update :: "event \<Rightarrow> update" where
  "failing_update ev =
     \<lparr>msg = ev, now = sample_time, append_exc = Some ''APIError: quota exceeded''\<rparr>"


section \<open>\<^verbatim>\<open>float\<close> on some texts\<close>

lemma py_float_25_5: "py_float ''25.5'' = Inr (Finite (51 / 2))" by code_simp
lemma py_float_50: "py_float ''50'' = Inr (Finite 50)" by code_simp
lemma py_float_inf: "py_float ''inf'' = Inr (Infinity False)" by code_simp
lemma py_float_nan: "py_float ''nan'' = Inr NaN" by code_simp
lemma py_float_1e3: "py_float ''1e3'' = Inr (Finite 1000)" by code_simp
lemma py_float_padded_50: "py_float ''  50  '' = Inr (Finite 50)" by code_simp

section \<open>The handlers, case by case\<close>

lemmas dispatch_defs =
  process_update_def conv_handler_def states_def fallbacks_def entry_points_def
  start_def get_name_def get_voucher_type_def cancel_def help_command_def
  reply_text_def message_text_def

text \<open>
  \<^verbatim>\<open>float\<close> raises nothing but \<^verbatim>\<open>ValueError\<close>.
\<close>

lemma py_float_error: "py_float t = Inl e \<Longrightarrow> e = ValueError"
  by (auto simp: py_float_def Let_def split: if_splits prod.splits option.splits)

text \<open>
  The amount handler when the text is not a number, and when it is one and both
  earlier fields are there.
\<close>

lemma amount_rejected:
  assumes "conv s = VOUCHER_AMOUNT" and "msg u = Text t" and "py_float t = Inl e"
  shows "process_update u s = s\<lparr>outbox := outbox s @ [InvalidAmount]\<rparr>"
proof -
  have "e = ValueError" using assms(3) by (rule py_float_error)
  with assms show ?thesis
    by (simp add: process_update_def conv_handler_def states_def get_voucher_amount_def
        message_text_def reply_text_def)
qed

lemma amount_accepted:
  assumes "conv s = VOUCHER_AMOUNT" and "msg u = Text t" and "py_float t = Inr a"
    and "user_data s ''name'' = Some n" and "user_data s ''voucher_type'' = Some v"
  shows "process_update u s =
     (case sheet s of
        None \<Rightarrow> s\<lparr>conv := END, user_data := Map.empty, outbox := outbox s @ [NotConfigured]\<rparr>
      | Some sh \<Rightarrow>
          (case append_exc u of
             None \<Rightarrow>
               s\<lparr>conv := END, user_data := Map.empty,
                 sheet := Some (append_row sh [Str (strftime (now u)), n, v, Float a]),
                 append_calls := append_calls s @ [[Str (strftime (now u)), n, v, Float a]],
                 outbox := outbox s @ [Saved (strftime (now u)) n v a]\<rparr>
           | Some e \<Rightarrow>
               s\<lparr>conv := END, user_data := Map.empty,
                 append_calls := append_calls s @ [[Str (strftime (now u)), n, v, Float a]],
                 logged := logged s @ [''Error saving to sheet: '' @ e],
                 outbox := outbox s @ [SaveFailed]\<rparr>))"
  using assms
  by (simp add: process_update_def conv_handler_def states_def get_voucher_amount_def
      message_text_def reply_text_def Let_def split: option.split)

section \<open>The scratch data along a session\<close>

lemma scratch_ok_startup: "scratch_ok (startup opened header_exc)"
  by (simp add: scratch_ok_def startup_def setup_failed_def
      split: sum.split option.split setup_error.split)

lemma scratch_ok_step:
  assumes ok: "scratch_ok s"
  shows "scratch_ok (process_update u s)"
proof (cases "msg u")
  case (Command c)
  with ok show ?thesis
    by (cases "conv s")
       (auto simp: scratch_ok_def process_update_def conv_handler_def states_def fallbacks_def
          entry_points_def start_def cancel_def help_command_def reply_text_def)
next
  case (Text t)
  show ?thesis
  proof (cases "conv s")
    case NAME
    with ok Text show ?thesis
      by (auto simp: scratch_ok_def process_update_def conv_handler_def states_def
          get_name_def reply_text_def message_text_def Let_def)
  next
    case VOUCHER_TYPE
    with ok obtain n where "user_data s = [''name'' \<mapsto> Str n]"
      by (auto simp: scratch_ok_def)
    with VOUCHER_TYPE Text show ?thesis
      by (simp add: scratch_ok_def process_update_def conv_handler_def states_def
          get_voucher_type_def reply_text_def message_text_def Let_def) blast
  next
    case VOUCHER_AMOUNT
    with ok obtain n v
      where ud: "user_data s = [''name'' \<mapsto> Str n, ''voucher_type'' \<mapsto> Str v]"
      by (auto simp: scratch_ok_def)
    show ?thesis
    proof (cases "py_float t")
      case (Inl e)
      from amount_rejected [OF VOUCHER_AMOUNT Text Inl] ok VOUCHER_AMOUNT show ?thesis
        by (simp add: scratch_ok_def)
    next
      case (Inr a)
      have "user_data s ''name'' = Some (Str n)" "user_data s ''voucher_type'' = Some (Str v)"
        by (simp_all add: ud)
      from amount_accepted [OF VOUCHER_AMOUNT Text Inr this] show ?thesis
        by (simp add: scratch_ok_def split: option.split)
    qed
  next
    case END
    with ok Text show ?thesis
      by (auto simp: scratch_ok_def process_update_def conv_handler_def entry_points_def)
  qed
next
  case Other
  with ok show ?thesis
    by (cases "conv s")
       (auto simp: scratch_ok_def process_update_def conv_handler_def states_def fallbacks_def
          entry_points_def)
qed

lemma scratch_ok_run: "scratch_ok s \<Longrightarrow> scratch_ok (run us s)"
  by (induction us arbitrary: s) (simp_all add: scratch_ok_step)

lemma scratch_ok_reachable: "scratch_ok (run us (startup opened header_exc))"
  by (rule scratch_ok_run [OF scratch_ok_startup])


lemma reachable_amount_fields:
  assumes "scratch_ok s" and "conv s = VOUCHER_AMOUNT"
  obtains n v where "user_data s ''name'' = Some (Str n)"
    and "user_data s ''voucher_type'' = Some (Str v)" and "user_data s ''amount'' = None"
proof -
  from assms obtain n v
    where "user_data s = [''name'' \<mapsto> Str n, ''voucher_type'' \<mapsto> Str v]"
    by (auto simp: scratch_ok_def)
  then have "user_data s ''name'' = Some (Str n)" "user_data s ''voucher_type'' = Some (Str v)"
    "user_data s ''amount'' = None"
    by simp_all
  then show ?thesis by (rule that)
qed


section \<open>The sample session\<close>

lemma sample_update_sel:
  "msg (sample_update ev) = ev" "now (sample_update ev) = sample_time"
  "append_exc (sample_update ev) = None"
  by (simp_all add: sample_update_def)

lemma failing_update_sel:
  "msg (failing_update ev) = ev" "now (failing_update ev) = sample_time"
  "append_exc (failing_update ev) = Some ''APIError: quota exceeded''"
  by (simp_all add: failing_update_def)

lemma strftime_sample: "strftime sample_time = ''2024-05-17 09:31:00''"
  by code_simp

lemma valid_sample_time: "valid_datetime sample_time"
  by (simp add: valid_datetime_def sample_time_def)

lemma three_steps:
  "run [\<lparr>msg = Command ''start'', now = d1, append_exc = x1\<rparr>,
        \<lparr>msg = Text n, now = d2, append_exc = x2\<rparr>,
        \<lparr>msg = Text v, now = d3, append_exc = x3\<rparr>] (startup (Inr sh) None)
   = \<lparr>conv = VOUCHER_AMOUNT, user_data = [''name'' \<mapsto> Str n, ''voucher_type'' \<mapsto> Str v],
      sheet = Some (ensure_header sh), outbox = [Welcome, AskVoucherType n, AskAmount],
      append_calls = [], logged = [''Google Sheets connected successfully!'']\<rparr>"
  by (simp add: startup_def dispatch_defs)

lemma sample_three_steps:
  "run [sample_update (Command ''start''), sample_update (Text n), sample_update (Text v)]
     (startup (Inr []) None)
   = \<lparr>conv = VOUCHER_AMOUNT, user_data = [''name'' \<mapsto> Str n, ''voucher_type'' \<mapsto> Str v],
      sheet = Some [header_row], outbox = [Welcome, AskVoucherType n, AskAmount],
      append_calls = [], logged = [''Google Sheets connected successfully!'']\<rparr>"
  unfolding sample_update_def three_steps
  by (simp add: ensure_header_def row_values_def append_row_def)

lemma startup_empty_sheet: "sheet (startup (Inr []) None) = Some [header_row]"
  by (simp add: startup_def ensure_header_def row_values_def append_row_def)

lemma append_below_header: "append_row [header_row] r = [header_row, r]"
  by (simp add: append_row_def blank_row_def blank_cell_def header_row_def)

section \<open>Commands\<close>

text \<open>
  C4. \<^verbatim>\<open>/cancel\<close> in any of the three collecting states sends the cancellation
  message, empties the scratch data and ends the conversation; the sheet and the
  list of appends stay as they were.
\<close>

theorem cancel_clears:
  assumes "conv s \<noteq> END" and "msg u = Command ''cancel''"
  shows "process_update u s =
           s\<lparr>conv := END, user_data := Map.empty, outbox := outbox s @ [Cancelled]\<rparr>"
  using assms
  by (cases "conv s")
     (simp_all add: process_update_def conv_handler_def states_def fallbacks_def cancel_def
        reply_text_def)

text \<open>
  The theorem at a state where the name was given: the name is dropped.
\<close>

theorem cancel_clears_witness:
  "process_update
     \<lparr>msg = Command ''cancel'',
      now = \<lparr>year = 2024, month = 5, day = 17, hour = 9, minute = 30, second = 0\<rparr>,
      append_exc = None\<rparr>
     \<lparr>conv = VOUCHER_TYPE, user_data = [''name'' \<mapsto> Str ''Alice''], sheet = Some [header_row],
      outbox = [Welcome, AskVoucherType ''Alice''], append_calls = [], logged = []\<rparr>
   = \<lparr>conv = END, user_data = Map.empty, sheet = Some [header_row],
      outbox = [Welcome, AskVoucherType ''Alice'', Cancelled], append_calls = [], logged = []\<rparr>"
  using cancel_clears
    [of "\<lparr>conv = VOUCHER_TYPE, user_data = [''name'' \<mapsto> Str ''Alice''], sheet = Some [header_row],
          outbox = [Welcome, AskVoucherType ''Alice''], append_calls = [], logged = []\<rparr>"
        "\<lparr>msg = Command ''cancel'',
          now = \<lparr>year = 2024, month = 5, day = 17, hour = 9, minute = 30, second = 0\<rparr>,
          append_exc = None\<rparr>"]
  by simp




section \<open>A complete conversation\<close>

lemma saved_text_parts:
  "\<exists>p1 p2 p3 p4 p5.
     text_of fmt (Saved d n v a) = p1 @ d @ p2 @ py_str fmt n @ p3 @ py_str fmt v @ p4 @ fmt a @ p5"
proof -
  have "text_of fmt (Saved d n v a) =
      (emoji_check @ '' Data berhasil disimpan!'' @ nl @ nl @ emoji_calendar @ '' Tanggal: '') @ d @
      (nl @ emoji_person @ '' Nama: '') @ py_str fmt n @
      (nl @ emoji_ticket @ '' Jenis Voucher: '') @ py_str fmt v @
      (nl @ emoji_dollar @ '' Jumlah: $'') @ fmt a @
      (nl @ nl @ ''Ketik /start untuk menambah data baru atau /cancel untuk berhenti.'')"
    by (simp add: text_of_def)
  then show ?thesis by blast
qed

text \<open>
  C1. After \<^verbatim>\<open>/start\<close>, \<^verbatim>\<open>Alice\<close>, \<^verbatim>\<open>Netflix\<close> and \<^verbatim>\<open>25.5\<close>, with the sheet connected and
  the append succeeding, the handlers have called \<^verbatim>\<open>append_row\<close> exactly once, with the
  row of the timestamp, \<^verbatim>\<open>Alice\<close>, \<^verbatim>\<open>Netflix\<close> and 25.5; the last reply is the success
  message, whose text contains the four values in that order; the conversation has
  ended and the scratch data is empty.
\<close>

theorem alice_netflix_scenario:
  "run [\<lparr>msg = Command ''start'', now = d1, append_exc = x1\<rparr>,
        \<lparr>msg = Text ''Alice'', now = d2, append_exc = x2\<rparr>,
        \<lparr>msg = Text ''Netflix'', now = d3, append_exc = x3\<rparr>,
        \<lparr>msg = Text ''25.5'', now = d4, append_exc = None\<rparr>] (startup (Inr sh) None)
   = \<lparr>conv = END, user_data = Map.empty,
      sheet = Some (append_row (ensure_header sh)
                [Str (strftime d4), Str ''Alice'', Str ''Netflix'', Float (Finite (51 / 2))]),
      outbox = [Welcome, AskVoucherType ''Alice'', AskAmount,
                Saved (strftime d4) (Str ''Alice'') (Str ''Netflix'') (Finite (51 / 2))],
      append_calls = [[Str (strftime d4), Str ''Alice'', Str ''Netflix'', Float (Finite (51 / 2))]],
      logged = [''Google Sheets connected successfully!'']\<rparr>
   \<and> (\<exists>p1 p2 p3 p4 p5.
        text_of fmt (Saved (strftime d4) (Str ''Alice'') (Str ''Netflix'') (Finite (51 / 2))) =
        p1 @ strftime d4 @ p2 @ ''Alice'' @ p3 @ ''Netflix'' @ p4 @ fmt (Finite (51 / 2)) @ p5)"
proof
  let ?s = "\<lparr>conv = VOUCHER_AMOUNT,
             user_data = [''name'' \<mapsto> Str ''Alice'', ''voucher_type'' \<mapsto> Str ''Netflix''],
             sheet = Some (ensure_header sh), outbox = [Welcome, AskVoucherType ''Alice'', AskAmount],
             append_calls = [], logged = [''Google Sheets connected successfully!'']\<rparr>"
  let ?u = "\<lparr>msg = Text ''25.5'', now = d4, append_exc = None\<rparr>"
  have "run [\<lparr>msg = Command ''start'', now = d1, append_exc = x1\<rparr>,
        \<lparr>msg = Text ''Alice'', now = d2, append_exc = x2\<rparr>,
        \<lparr>msg = Text ''Netflix'', now = d3, append_exc = x3\<rparr>, ?u] (startup (Inr sh) None)
      = process_update ?u ?s"
    using three_steps [of d1 x1 "''Alice''" d2 x2 "''Netflix''" d3 x3 sh]
    by (simp del: fun_upd_apply)
  also have "\<dots> = \<lparr>conv = END, user_data = Map.empty,
      sheet = Some (append_row (ensure_header sh)
                [Str (strftime d4), Str ''Alice'', Str ''Netflix'', Float (Finite (51 / 2))]),
      outbox = [Welcome, AskVoucherType ''Alice'', AskAmount,
                Saved (strftime d4) (Str ''Alice'') (Str ''Netflix'') (Finite (51 / 2))],
      append_calls = [[Str (strftime d4), Str ''Alice'', Str ''Netflix'', Float (Finite (51 / 2))]],
      logged = [''Google Sheets connected successfully!'']\<rparr>"
    using amount_accepted [of ?s ?u "''25.5''" "Finite (51 / 2)" "Str ''Alice''" "Str ''Netflix''"]
    by (simp add: py_float_25_5)
  finally show "run [\<lparr>msg = Command ''start'', now = d1, append_exc = x1\<rparr>,
        \<lparr>msg = Text ''Alice'', now = d2, append_exc = x2\<rparr>,
        \<lparr>msg = Text ''Netflix'', now = d3, append_exc = x3\<rparr>, ?u] (startup (Inr sh) None)
      = \<lparr>conv = END, user_data = Map.empty,
      sheet = Some (append_row (ensure_header sh)
                [Str (strftime d4), Str ''Alice'', Str ''Netflix'', Float (Finite (51 / 2))]),
      outbox = [Welcome, AskVoucherType ''Alice'', AskAmount,
                Saved (strftime d4) (Str ''Alice'') (Str ''Netflix'') (Finite (51 / 2))],
      append_calls = [[Str (strftime d4), Str ''Alice'', Str ''Netflix'', Float (Finite (51 / 2))]],
      logged = [''Google Sheets connected successfully!'']\<rparr>" .
next
  show "\<exists>p1 p2 p3 p4 p5.
        text_of fmt (Saved (strftime d4) (Str ''Alice'') (Str ''Netflix'') (Finite (51 / 2))) =
        p1 @ strftime d4 @ p2 @ ''Alice'' @ p3 @ ''Netflix'' @ p4 @ fmt (Finite (51 / 2)) @ p5"
    using saved_text_parts [of fmt "strftime d4" "Str ''Alice''" "Str ''Netflix''" "Finite (51 / 2)"]
    by (simp add: py_str_def)
qed

section \<open>The amount\<close>



text \<open>
  C5. When the amount is a number but the sheet was never connected, or the append
  raises, the conversation still ends and the scratch data is emptied. The reply is
  one of two fixed texts, whatever the exception says; the sheet is unchanged, and
  the append was tried once or, without a sheet, not at all.
\<close>

theorem store_failure_still_ends:
  assumes "s = run us (startup opened header_exc)" and "conv s = VOUCHER_AMOUNT"
    and "msg u = Text t" and "py_float t = Inr a"
    and "sheet s = None \<or> append_exc u \<noteq> None"
  shows "conv (process_update u s) = END \<and>
         user_data (process_update u s) = Map.empty \<and>
         sheet (process_update u s) = sheet s \<and>
         outbox (process_update u s) =
           outbox s @ [if sheet s = None then NotConfigured else SaveFailed] \<and>
         length (append_calls (process_update u s)) =
           (if sheet s = None then length (append_calls s) else length (append_calls s) + 1) \<and>
         text_of fmt (last (outbox (process_update u s))) =
           (if sheet s = None
            then emoji_cross @ '' Koneksi ke Google Sheets belum tersedia.'' @ nl @
                 ''Silakan periksa konfigurasi.''
            else emoji_cross @ '' Maaf, terjadi kesalahan saat menyimpan ke spreadsheet.'' @ nl @
                 ''Silakan coba lagi atau hubungi admin.'')"
proof -
  have ok: "scratch_ok s" using assms(1) by (simp add: scratch_ok_reachable)
  from ok assms(2) obtain n v where nv: "user_data s ''name'' = Some (Str n)"
    "user_data s ''voucher_type'' = Some (Str v)" "user_data s ''amount'' = None"
    by (rule reachable_amount_fields)
  show ?thesis
  proof (cases "sheet s")
    case None
    with amount_accepted [OF assms(2,3,4) nv(1,2)] show ?thesis
      by (simp add: text_of_def)
  next
    case (Some sh)
    with assms(5) obtain e where "append_exc u = Some e" by auto
    with Some amount_accepted [OF assms(2,3,4) nv(1,2)] show ?thesis
      by (simp add: text_of_def)
  qed
qed

text \<open>
  The theorem when the append raises a quota error after \<^verbatim>\<open>/start\<close>, \<^verbatim>\<open>Bob\<close>, \<^verbatim>\<open>Steam\<close>, \<^verbatim>\<open>50\<close>.
\<close>

theorem store_failure_still_ends_witness:
  "conv (process_update (failing_update (Text ''50''))
      (run [sample_update (Command ''start''), sample_update (Text ''Bob''),
            sample_update (Text ''Steam'')] (startup (Inr []) None))) = END \<and>
   user_data (process_update (failing_update (Text ''50''))
      (run [sample_update (Command ''start''), sample_update (Text ''Bob''),
            sample_update (Text ''Steam'')] (startup (Inr []) None))) = Map.empty \<and>
   sheet (process_update (failing_update (Text ''50''))
      (run [sample_update (Command ''start''), sample_update (Text ''Bob''),
            sample_update (Text ''Steam'')] (startup (Inr []) None))) = Some [header_row] \<and>
   outbox (process_update (failing_update (Text ''50''))
      (run [sample_update (Command ''start''), sample_update (Text ''Bob''),
            sample_update (Text ''Steam'')] (startup (Inr []) None)))
     = [Welcome, AskVoucherType ''Bob'', AskAmount, SaveFailed]"
  using store_failure_still_ends
    [of "run [sample_update (Command ''start''), sample_update (Text ''Bob''),
              sample_update (Text ''Steam'')] (startup (Inr []) None)"
        "[sample_update (Command ''start''), sample_update (Text ''Bob''),
          sample_update (Text ''Steam'')]"
        "Inr []" None "failing_update (Text ''50'')" "''50''" "Finite 50"]
  by (simp add: sample_three_steps py_float_50 failing_update_sel del: run.simps)

text \<open>
  C10. \<^verbatim>\<open>float\<close> accepts more than digit strings: \<^verbatim>\<open>inf\<close>, \<^verbatim>\<open>nan\<close>, \<^verbatim>\<open>1e3\<close> and
  \<^verbatim>\<open>50\<close> between spaces are read as infinity, not-a-number, 1000 and 50. With the
  sheet connected, each of them ends the conversation with an append of that value
  and is not answered by the validation message.
\<close>

theorem special_amounts_accepted:
  assumes "s = run us (startup opened header_exc)" and "conv s = VOUCHER_AMOUNT"
    and "sheet s \<noteq> None" and "msg u = Text t"
    and "(t, a) \<in> {(''inf'', Infinity False), (''nan'', NaN), (''1e3'', Finite 1000),
                   (''  50  '', Finite 50)}"
  shows "py_float t = Inr a \<and>
         conv (process_update u s) = END \<and>
         (\<exists>n v. append_calls (process_update u s) =
                  append_calls s @ [[Str (strftime (now u)), Str n, Str v, Float a]]) \<and>
         outbox (process_update u s) \<noteq> outbox s @ [InvalidAmount]"
proof -
  have ok: "scratch_ok s" using assms(1) by (simp add: scratch_ok_reachable)
  from ok assms(2) obtain n v where nv: "user_data s ''name'' = Some (Str n)"
    "user_data s ''voucher_type'' = Some (Str v)" "user_data s ''amount'' = None"
    by (rule reachable_amount_fields)
  have pf: "py_float t = Inr a"
    using assms(5) by (auto simp: py_float_inf py_float_nan py_float_1e3 py_float_padded_50)
  from assms(3) obtain sh where "sheet s = Some sh" by auto
  with amount_accepted [OF assms(2,4) pf nv(1,2)] pf show ?thesis
    by (auto split: option.split)
qed

text \<open>
  The theorem at \<^verbatim>\<open>nan\<close>: the row passed to the sheet holds not-a-number.
\<close>

theorem special_amounts_accepted_witness:
  "py_float ''nan'' = Inr NaN \<and>
   conv (process_update (sample_update (Text ''nan''))
      (run [sample_update (Command ''start''), sample_update (Text ''Bob''),
            sample_update (Text ''Steam'')] (startup (Inr []) None))) = END \<and>
   (\<exists>n v. append_calls (process_update (sample_update (Text ''nan''))
      (run [sample_update (Command ''start''), sample_update (Text ''Bob''),
            sample_update (Text ''Steam'')] (startup (Inr []) None)))
         = [[Str ''2024-05-17 09:31:00'', Str n, Str v, Float NaN]])"
  using special_amounts_accepted
    [of "run [sample_update (Command ''start''), sample_update (Text ''Bob''),
              sample_update (Text ''Steam'')] (startup (Inr []) None)"
        "[sample_update (Command ''start''), sample_update (Text ''Bob''),
          sample_update (Text ''Steam'')]"
        "Inr []" None "sample_update (Text ''nan'')" "''nan''" NaN]
  by (simp add: sample_three_steps sample_update_sel strftime_sample py_float_nan del: run.simps)

section \<open>The sign of the amount\<close>









section \<open>The header\<close>

text \<open>
  The header is written once when the first row holds data, and when the sheet holds
  no data at all.
\<close>

lemma ensure_header_idem:
  assumes "row_values sh 1 \<noteq> [] \<or> list_all blank_row sh"
  shows "ensure_header (ensure_header sh) = ensure_header sh"
proof (cases "row_values sh 1 = []")
  case False
  then show ?thesis by (simp add: ensure_header_def)
next
  case True
  with assms have "list_all blank_row sh" by simp
  then have "dropWhile blank_row (rev sh) = []"
    by (simp add: list_all_iff)
  then have "ensure_header sh = [header_row]"
    using True by (simp add: ensure_header_def append_row_def)
  moreover have "row_values [header_row] 1 = header_row"
    by (simp add: row_values_def header_row_def blank_cell_def)
  ultimately show ?thesis
    by (simp add: ensure_header_def header_row_def)
qed

text \<open>
  C7. On a sheet whose first row is blank and whose second row holds data,
  \<^verbatim>\<open>row_values(1)\<close> is empty both times, and each run of the header code appends a
  header below the data: after two runs the sheet has two header rows.
\<close>

theorem header_twice_below_data:
  "row_values [[], [Str ''2024-05-17 09:31:00'', Str ''Bob'', Str ''Steam'', Float (Finite 50)]] 1 = [] \<and>
   ensure_header (ensure_header
     [[], [Str ''2024-05-17 09:31:00'', Str ''Bob'', Str ''Steam'', Float (Finite 50)]])
   = [[], [Str ''2024-05-17 09:31:00'', Str ''Bob'', Str ''Steam'', Float (Finite 50)],
      header_row, header_row]"
  by (simp add: ensure_header_def row_values_def append_row_def blank_row_def blank_cell_def
      header_row_def)

section \<open>The rows of the sheet\<close>

lemma is_digit_digit_char: "is_digit (digit_char n)"
proof -
  have "n mod 10 < 10" by simp
  then have "(48 + n mod 10) mod 256 = 48 + n mod 10" by simp
  then show ?thesis by (simp add: is_digit_def digit_char_def)
qed

lemma strftime_is_timestamp: "is_timestamp (strftime d)"
  by (simp add: is_timestamp_def strftime_def pad2_def pad4_def is_digit_digit_char)

lemma digit_val_digit_char: "digit_val (digit_char n) = n mod 10"
proof -
  have "n mod 10 < 10" by simp
  then have "(48 + n mod 10) mod 256 = 48 + n mod 10" by simp
  then show ?thesis by (simp add: digit_val_def digit_char_def)
qed

lemma digits_val_pad2: "n < 100 \<Longrightarrow> digits_val (pad2 n) = n"
  by (simp add: digits_val_def pad2_def digit_val_digit_char)

lemma four_digits:
  fixes n :: nat
  shows "1000 * (n div 1000) + 100 * (n div 100 mod 10) + 10 * (n div 10 mod 10) + n mod 10 = n"
proof -
  define q1 where "q1 = n div 10"
  define q2 where "q2 = n div 100"
  define a where "a = n div 1000"
  define b where "b = n div 100 mod 10"
  define c where "c = n div 10 mod 10"
  define d where "d = n mod 10"
  have "n div (10 * 10) = n div 10 div 10" by (rule div_mult2_eq)
  then have h: "q2 = q1 div 10" by (simp add: q1_def q2_def)
  have "n div (100 * 10) = n div 100 div 10" by (rule div_mult2_eq)
  then have t: "a = q2 div 10" by (simp add: a_def q2_def)
  have e0: "n = 10 * q1 + d" by (simp add: q1_def d_def)
  have e1: "q1 = 10 * q2 + c" by (simp add: h c_def q1_def)
  have e2: "q2 = 10 * a + b" by (simp add: t b_def q2_def)
  have "1000 * a + 100 * b + 10 * c + d = n" by (simp add: e0 e1 e2)
  then show ?thesis by (simp add: a_def b_def c_def d_def)
qed

lemma digits_val_pad4: "n < 10000 \<Longrightarrow> digits_val (pad4 n) = n"
  by (simp add: digits_val_def pad4_def digit_val_digit_char four_digits)

lemma take_drop_strftime:
  "take 4 (strftime d) = pad4 (year d)" "take 2 (drop 5 (strftime d)) = pad2 (month d)"
  "take 2 (drop 8 (strftime d)) = pad2 (day d)" "take 2 (drop 11 (strftime d)) = pad2 (hour d)"
  "take 2 (drop 14 (strftime d)) = pad2 (minute d)"
  "take 2 (drop 17 (strftime d)) = pad2 (second d)"
  by (simp_all add: strftime_def pad2_def pad4_def)

lemma timestamp_fields_strftime:
  assumes "valid_datetime d"
  shows "timestamp_fields (strftime d) =
           [year d, month d, day d, hour d, minute d, second d]"
proof -
  from assms have "year d < 10000" "month d < 100" "day d < 100" "hour d < 100"
    "minute d < 100" "second d < 100"
    by (simp_all add: valid_datetime_def)
  then show ?thesis
    by (simp add: timestamp_fields_def take_drop_strftime digits_val_pad2 digits_val_pad4)
qed

text \<open>
  C8, as the specification states it, fails on the names of the columns: the header
  that the code writes is not \<^verbatim>\<open>Date, Name, Voucher Type, Amount\<close>.
\<close>

theorem header_names_counterexample:
  "header_row \<noteq> [Str ''Date'', Str ''Name'', Str ''Voucher Type'', Str ''Amount''] \<and>
   sheet (startup (Inr []) None) \<noteq>
     Some [[Str ''Date'', Str ''Name'', Str ''Voucher Type'', Str ''Amount'']]"
  by (simp add: header_row_def startup_def ensure_header_def row_values_def append_row_def)

text \<open>
  C8, amended. The header has the four columns \<^verbatim>\<open>Tanggal\<close>, \<^verbatim>\<open>Nama\<close>,
  \<^verbatim>\<open>Jenis Voucher\<close>, \<^verbatim>\<open>Jumlah (Dollar)\<close> (date, name, voucher type, amount in
  dollars), and start-up writes it on an empty sheet. A conversation that ends with
  the sheet connected and the append succeeding adds exactly one row: the timestamp,
  the name, the voucher type and the amount, in that order, the first three as texts
  and the amount as the float that was read. The timestamp has the shape
  \<^verbatim>\<open>YYYY-MM-DD HH:MM:SS\<close> and spells the six fields of the clock.
\<close>

theorem sheet_schema:
  assumes "s = run us (startup opened header_exc)" and "conv s = VOUCHER_AMOUNT"
    and "msg u = Text t" and "py_float t = Inr a"
    and "sheet s = Some sh" and "append_exc u = None" and "valid_datetime (now u)"
  shows "header_row = [Str ''Tanggal'', Str ''Nama'', Str ''Jenis Voucher'', Str ''Jumlah (Dollar)''] \<and>
         sheet (startup (Inr []) None) = Some [header_row] \<and>
         (\<exists>n v. user_data s ''name'' = Some (Str n) \<and> user_data s ''voucher_type'' = Some (Str v) \<and>
            sheet (process_update u s) =
              Some (append_row sh [Str (strftime (now u)), Str n, Str v, Float a]) \<and>
            append_calls (process_update u s) =
              append_calls s @ [[Str (strftime (now u)), Str n, Str v, Float a]]) \<and>
         is_timestamp (strftime (now u)) \<and>
         timestamp_fields (strftime (now u)) =
           [year (now u), month (now u), day (now u), hour (now u), minute (now u), second (now u)]"
proof -
  have ok: "scratch_ok s" using assms(1) by (simp add: scratch_ok_reachable)
  from ok assms(2) obtain n v where nv: "user_data s ''name'' = Some (Str n)"
    "user_data s ''voucher_type'' = Some (Str v)" "user_data s ''amount'' = None"
    by (rule reachable_amount_fields)
  from amount_accepted [OF assms(2,3,4) nv(1,2)] assms(5,6)
  have "sheet (process_update u s) =
              Some (append_row sh [Str (strftime (now u)), Str n, Str v, Float a]) \<and>
            append_calls (process_update u s) =
              append_calls s @ [[Str (strftime (now u)), Str n, Str v, Float a]]"
    by simp
  with nv(1,2)
  have row: "\<exists>n v. user_data s ''name'' = Some (Str n) \<and> user_data s ''voucher_type'' = Some (Str v) \<and>
            sheet (process_update u s) =
              Some (append_row sh [Str (strftime (now u)), Str n, Str v, Float a]) \<and>
            append_calls (process_update u s) =
              append_calls s @ [[Str (strftime (now u)), Str n, Str v, Float a]]"
    by blast
  have hdr: "header_row = [Str ''Tanggal'', Str ''Nama'', Str ''Jenis Voucher'', Str ''Jumlah (Dollar)'']"
    by (simp add: header_row_def)
  from hdr startup_empty_sheet row strftime_is_timestamp [of "now u"]
    timestamp_fields_strftime [OF assms(7)]
  show ?thesis by blast
qed

text \<open>
  The theorem at \<^verbatim>\<open>50\<close> after \<^verbatim>\<open>/start\<close>, \<^verbatim>\<open>Bob\<close>, \<^verbatim>\<open>Steam\<close>, on a sheet that was empty.
\<close>

theorem sheet_schema_witness:
  "valid_datetime sample_time \<and>
   sheet (process_update (sample_update (Text ''50''))
      (run [sample_update (Command ''start''), sample_update (Text ''Bob''),
            sample_update (Text ''Steam'')] (startup (Inr []) None)))
     = Some [header_row, [Str ''2024-05-17 09:31:00'', Str ''Bob'', Str ''Steam'', Float (Finite 50)]] \<and>
   is_timestamp ''2024-05-17 09:31:00'' \<and>
   timestamp_fields ''2024-05-17 09:31:00'' = [2024, 5, 17, 9, 31, 0]"
proof -
  let ?us = "[sample_update (Command ''start''), sample_update (Text ''Bob''),
              sample_update (Text ''Steam'')]"
  let ?s = "run ?us (startup (Inr []) None)"
  let ?u = "sample_update (Text ''50'')"
  have 1: "conv ?s = VOUCHER_AMOUNT" and 2: "sheet ?s = Some [header_row]"
    and 3: "user_data ?s ''name'' = Some (Str ''Bob'')"
    and 4: "user_data ?s ''voucher_type'' = Some (Str ''Steam'')"
    by (simp_all add: sample_three_steps del: run.simps)
  have 5: "msg ?u = Text ''50''" and 6: "append_exc ?u = None" and 7: "now ?u = sample_time"
    by (simp_all add: sample_update_sel)
  have 8: "valid_datetime (now ?u)" by (simp add: 7 valid_sample_time)
  from sheet_schema [OF refl 1 5 py_float_50 2 6 8] 3 4
  have "sheet (process_update ?u ?s) =
          Some (append_row [header_row]
                 [Str (strftime sample_time), Str ''Bob'', Str ''Steam'', Float (Finite 50)])"
    and "is_timestamp (strftime sample_time)"
    and "timestamp_fields (strftime sample_time) =
           [year sample_time, month sample_time, day sample_time, hour sample_time,
            minute sample_time, second sample_time]"
    by (auto simp: 7 simp del: run.simps)
  then show ?thesis
    by (simp add: strftime_sample append_below_header valid_sample_time del: run.simps)
       (simp add: sample_time_def)
qed

end
